theory Spec2Isabelle
  imports Main "HOL-Library.Sublist"
begin

section \<open>JavaScript values used by the tool\<close>

text \<open>
  The tool is written against two libraries that are not part of the repository: the
  combinator library \<open>rubico\<close> (bound to \<open>_\<close>) and the git binding \<open>nodegit\<close>.
  A combinator is modelled by what the program's own use of it shows: \<open>_.flow\<close> is
  composition, \<open>_.switch(c, f, g)\<close> is a conditional whose non-function arguments are
  constants, \<open>_.get(k, d)\<close> reads a property and yields \<open>d\<close> (or \<open>undefined\<close>) where the
  property or its holder is missing, \<open>_.has(m)\<close> is membership in an array, and
  \<open>_.map\<close> and \<open>_.filter\<close> keep the order of the array.

  \<open>undefined\<close> is \<open>None\<close>. A rejected promise (a thrown exception) is the \<open>Inl\<close> of a sum.
  Where the program hands \<open>undefined\<close> to a combinator that works on a string or an array
  (\<open>_.split\<close>, \<open>_.size\<close>, \<open>_.isEmpty\<close>), the call is taken to throw, as the method of
  the same name does in JavaScript.
\<close>

datatype js_error =
    GitError    \<comment> \<open>a nodegit call rejected\<close>
  | IOError     \<comment> \<open>a file system call rejected\<close>
  | TypeError   \<comment> \<open>a string or array operation applied to \<open>undefined\<close>\<close>

text \<open>\<open>_.tryCatch(f, console.error)\<close> and \<open>_.tryCatch(f, _.noop)\<close>: the handler returns
  \<open>undefined\<close>.\<close>

definition tryCatch :: "js_error + 'a \<Rightarrow> 'a option" where
  "tryCatch r = (case r of Inl e \<Rightarrow> None | Inr v \<Rightarrow> Some v)"

text \<open>\<open>String.prototype.split\<close> with a string separator: the text is scanned from the
  left, and each occurrence of the separator closes the current piece.  \<open>splitAcc\<close>
  carries the separator as its first character and its rest, and the current piece
  reversed.\<close>

fun splitAcc :: "char \<Rightarrow> string \<Rightarrow> string \<Rightarrow> string \<Rightarrow> string list" where
  "splitAcc d ds acc [] = [rev acc]"
| "splitAcc d ds acc (c # cs) =
     (if prefix (d # ds) (c # cs)
      then rev acc # splitAcc d ds [] (drop (length ds) cs)
      else splitAcc d ds (c # acc) cs)"

definition split :: "string \<Rightarrow> string \<Rightarrow> string list" where
  "split sep x = (case sep of [] \<Rightarrow> map (\<lambda>c. [c]) x | d # ds \<Rightarrow> splitAcc d ds [] x)"

text \<open>\<open>Array.prototype.join\<close> on an array of strings.\<close>

fun join :: "string \<Rightarrow> string list \<Rightarrow> string" where
  "join d [] = []"
| "join d [x] = x"
| "join d (x # y # ys) = x @ d @ join d (y # ys)"

text \<open>In a joined array or a template string an \<open>undefined\<close> element prints differently:
  \<open>join\<close> prints nothing for it, a template prints the word.\<close>

definition join_text :: "string option \<Rightarrow> string" where
  "join_text v = (case v of None \<Rightarrow> [] | Some s \<Rightarrow> s)"

definition template_text :: "string option \<Rightarrow> string" where
  "template_text v = (case v of None \<Rightarrow> ''undefined'' | Some s \<Rightarrow> s)"

text \<open>\<open>String.prototype.padStart(n, c)\<close> with a one-character filler.\<close>

definition padStart :: "nat \<Rightarrow> char \<Rightarrow> string \<Rightarrow> string" where
  "padStart n c s = replicate (n - length s) c @ s"

text \<open>\<open>_.get(i)\<close> on an array: the element at index \<open>i\<close>, \<open>undefined\<close> past the end.\<close>

definition get_index :: "nat \<Rightarrow> 'a list \<Rightarrow> 'a option" where
  "get_index i xs = (if i < length xs then Some (xs ! i) else None)"

section \<open>The Module Locator\<close>

text \<open>
  A path is the list of its components, so that \<open>nodePath.join(x, y)\<close> for a directory
  entry \<open>y\<close> is \<open>x @ [y]\<close>, and a path lies strictly below another when the other is a
  strict prefix of it.  The directory tree is finite; \<open>File\<close> stands for everything
  \<open>fse.readdir\<close> rejects (a plain file, an unreadable directory).
\<close>

type_synonym path = "string list"

datatype fsnode = File | Dir "(string \<times> fsnode) list"

fun lookup_node :: "fsnode \<Rightarrow> path \<Rightarrow> fsnode option" where
  "lookup_node n [] = Some n"
| "lookup_node File (c # cs) = None"
| "lookup_node (Dir es) (c # cs) =
     (case map_of es c of None \<Rightarrow> None | Some n \<Rightarrow> lookup_node n cs)"

text \<open>\<open>_.tryCatch(x => fse.readdir(x), _.noop)\<close>: the entry names, or \<open>undefined\<close>.\<close>

definition readdir :: "fsnode \<Rightarrow> path \<Rightarrow> string list option" where
  "readdir fs p = (case lookup_node fs p of Some (Dir es) \<Rightarrow> Some (map fst es) | _ \<Rightarrow> None)"

text \<open>\<open>_.uniq\<close>: each element once, at its first position.\<close>

fun uniq :: "'a list \<Rightarrow> 'a list" where
  "uniq [] = []"
| "uniq (x # xs) = x # uniq (filter (\<lambda>y. y \<noteq> x) xs)"

text \<open>The scan ends because every recursive call works on directories strictly lower in
  the tree than one of the directories of the call before.\<close>

fun height :: "fsnode \<Rightarrow> nat" where
  "height File = 0"
| "height (Dir es) = Suc (fold max (map (\<lambda>e. height (snd e)) es) 0)"

definition height_at :: "fsnode \<Rightarrow> path \<Rightarrow> nat" where
  "height_at fs p = (case lookup_node fs p of None \<Rightarrow> 0 | Some n \<Rightarrow> height n)"

definition scan_measure :: "fsnode \<times> path list \<Rightarrow> nat" where
  "scan_measure a = Suc (fold max (map (height_at (fst a)) (snd a)) 0)"

lemma fold_max_ge: "(m::nat) \<le> fold max xs m"
  by (induction xs arbitrary: m) (auto intro: order_trans[OF max.cobounded2])

lemma fold_max_mem: "x \<in> set xs \<Longrightarrow> (x::nat) \<le> fold max xs m"
proof (induction xs arbitrary: m)
  case Nil
  then show ?case by simp
next
  case (Cons a xs)
  show ?case
  proof (cases "x = a")
    case True
    have "a \<le> max a m" by simp
    also have "\<dots> \<le> fold max xs (max a m)" by (rule fold_max_ge)
    finally show ?thesis using True by simp
  next
    case False
    with Cons show ?thesis by simp
  qed
qed

lemma fold_max_less:
  "(\<And>x. x \<in> set xs \<Longrightarrow> x < b) \<Longrightarrow> m < b \<Longrightarrow> fold max xs m < (b::nat)"
  by (induction xs arbitrary: m) auto

lemma lookup_node_append:
  "lookup_node fs (p @ q) =
     (case lookup_node fs p of None \<Rightarrow> None | Some n \<Rightarrow> lookup_node n q)"
  by (induction fs p rule: lookup_node.induct) (auto split: option.splits)

lemma height_child:
  assumes "map_of es y = Some n"
  shows "height n < height (Dir es)"
proof -
  from assms have "(y, n) \<in> set es" by (rule map_of_SomeD)
  then have "height n \<in> set (map (\<lambda>e. height (snd e)) es)" by force
  then have "height n \<le> fold max (map (\<lambda>e. height (snd e)) es) 0" by (rule fold_max_mem)
  then show ?thesis by simp
qed

lemma height_at_child:
  assumes "readdir fs x = Some es" and "y \<in> set es"
  shows "height_at fs (x @ [y]) < height_at fs x"
proof -
  from assms(1) obtain ch where l: "lookup_node fs x = Some (Dir ch)" and es: "es = map fst ch"
    by (auto simp: readdir_def split: option.splits fsnode.splits)
  from assms(2) es obtain n where n: "map_of ch y = Some n"
    by (metis (no_types, lifting) domD dom_map_of_conv_image_fst list.set_map)
  have "lookup_node fs (x @ [y]) = Some n"
    using l n by (simp add: lookup_node_append)
  then show ?thesis using l height_child[OF n] by (simp add: height_at_def)
qed

text \<open>\<open>findModules\<close>: every path that can be listed is either a module (its listing has
  both \<open>.git\<close> and \<open>package.json\<close>) and is returned as it is, or is scanned entry by
  entry; the results are flattened and made unique.\<close>

function findModules :: "fsnode \<Rightarrow> path list \<Rightarrow> path list" where
  "findModules fs paths =
     uniq (concat (map
       (\<lambda>x. case readdir fs x of
               None \<Rightarrow> []
             | Some es \<Rightarrow>
                 if ''.git'' \<in> set es \<and> ''package.json'' \<in> set es
                 then [x]
                 else findModules fs (map (\<lambda>y. x @ [y]) es))
       paths))"
  by pat_completeness auto
termination
proof (relation "measure scan_measure")
  show "wf (measure scan_measure)" by simp
next
  fix fs :: fsnode and paths :: "path list" and x es
  assume x: "x \<in> set paths" and r: "readdir fs x = Some es"
  have "fold max (map (height_at fs) (map (\<lambda>y. x @ [y]) es)) 0 < height_at fs x"
  proof (rule fold_max_less)
    fix h assume "h \<in> set (map (height_at fs) (map (\<lambda>y. x @ [y]) es))"
    then obtain y where "y \<in> set es" and "h = height_at fs (x @ [y])" by auto
    then show "h < height_at fs x" using height_at_child[OF r] by simp
  next
    from r obtain ch where "lookup_node fs x = Some (Dir ch)"
      by (auto simp: readdir_def split: option.splits fsnode.splits)
    then show "0 < height_at fs x" by (simp add: height_at_def)
  qed
  also have "\<dots> \<le> fold max (map (height_at fs) paths) 0"
    using x by (intro fold_max_mem) simp
  finally show "((fs, map (\<lambda>y. x @ [y]) es), (fs, paths)) \<in> measure scan_measure"
    by (simp add: scan_measure_def)
qed

declare findModules.simps [simp del]

text \<open>A directory is a module when its listing has both entries.\<close>

definition is_module :: "fsnode \<Rightarrow> path \<Rightarrow> bool" where
  "is_module fs p =
     (case readdir fs p of None \<Rightarrow> False
      | Some es \<Rightarrow> ''.git'' \<in> set es \<and> ''package.json'' \<in> set es)"

text \<open>Two trees for the examples: a module \<open>m\<close> with a module \<open>m/sub\<close> inside it, and a
  workspace \<open>ws\<close> with the module \<open>ws/a\<close> and the group \<open>ws/grp\<close> holding \<open>ws/grp/b\<close>.\<close>

definition nested_tree :: fsnode where
  "nested_tree =
     Dir [(''m'', Dir [(''.git'', Dir []), (''package.json'', File),
            (''sub'', Dir [(''.git'', Dir []), (''package.json'', File)])])]"

definition workspace_tree :: fsnode where
  "workspace_tree =
     Dir [(''ws'', Dir [(''a'', Dir [(''.git'', Dir []), (''package.json'', File),
                                     (''lib'', Dir [])]),
                        (''grp'', Dir [(''b'', Dir [(''.git'', Dir []),
                                                    (''package.json'', File)])]),
                        (''notes.txt'', File)])]"

section \<open>git.js: the view of one checkout\<close>

subsection \<open>Status flags\<close>

text \<open>One entry of \<open>repo.getStatusExt()\<close>, after \<open>status\<close> has called each of its
  predicates (\<open>_.map(_.map(x => _.toFn(x)()))\<close>).\<close>

record nodegit_status =
  status_path :: string
  isConflicted :: bool
  isDeleted :: bool
  isIgnored :: bool
  isModified :: bool
  isNew :: bool
  isRenamed :: bool
  isTypechange :: bool

text \<open>\<open>getStatusFlag\<close>: seven assignments in a row, then the padding to two characters.\<close>

definition getStatusFlag :: "nodegit_status \<Rightarrow> string" where
  "getStatusFlag x =
     (let y = '''';
          y = (if isConflicted x then ''C'' else y);
          y = (if isDeleted x then ''D'' else y);
          y = (if isIgnored x then ''I'' else y);
          y = (if isModified x then ''M'' else y);
          y = (if isNew x then ''??'' else y);
          y = (if isRenamed x then ''R'' else y);
          y = (if isTypechange x then ''T'' else y)
      in padStart 2 CHR '' '' y)"

text \<open>The rule as the specification words it: the predicates in the order
  C, D, I, M, new, R, T, and the flag of the last one that matches (no flag when none
  does).\<close>

definition flag_order :: "((nodegit_status \<Rightarrow> bool) \<times> string) list" where
  "flag_order =
     [(isConflicted, ''C''), (isDeleted, ''D''), (isIgnored, ''I''), (isModified, ''M''),
      (isNew, ''??''), (isRenamed, ''R''), (isTypechange, ''T'')]"

definition last_matching_flag :: "nodegit_status \<Rightarrow> string" where
  "last_matching_flag x =
     (case filter (\<lambda>pf. fst pf x) flag_order of [] \<Rightarrow> '''' | m # ms \<Rightarrow> snd (last (m # ms)))"

subsection \<open>References and the repository\<close>

type_synonym oid = nat

text \<open>A nodegit reference: its shorthand name and the commit it points at.\<close>

record reference =
  shorthand :: string
  target :: "oid option"

text \<open>What nodegit answers for one opened repository.  \<open>None\<close> is a rejected call.
  \<open>repo_upstream\<close> is \<open>nodegit.Branch.upstream\<close> of the head reference;
  \<open>repo_peel\<close> is \<open>ref.peel(COMMIT)\<close>; the two graph fields are
  \<open>nodegit.Graph.aheadBehind\<close> and \<open>nodegit.Graph.descendantOf\<close>.\<close>

record git_repo =
  repo_head :: "reference option"
  repo_upstream :: "reference option"
  repo_statuses :: "nodegit_status list option"
  repo_tags :: "string list option"
  repo_remote_url :: "string \<Rightarrow> string option"
  repo_reference :: "string \<Rightarrow> reference option"
  repo_peel :: "reference \<Rightarrow> oid option"
  graph_aheadBehind :: "oid \<Rightarrow> oid \<Rightarrow> (nat \<times> nat) option"
  graph_descendantOf :: "oid \<Rightarrow> oid \<Rightarrow> int option"

text \<open>\<open>getRemoteUrl\<close>: the URL of the named remote, split at \<open>@\<close>, and the piece at
  index 1.  The argument is the result of \<open>getRepo\<close> (\<open>None\<close> when the repository does
  not open).\<close>

definition getRemoteUrl :: "string \<Rightarrow> git_repo option \<Rightarrow> js_error + string option" where
  "getRemoteUrl name r =
     (case r of
        None \<Rightarrow> Inl GitError
      | Some repo \<Rightarrow>
          (case repo_remote_url repo name of
             None \<Rightarrow> Inl GitError
           | Some url \<Rightarrow> Inr (get_index 1 (split ''@'' url))))"

text \<open>\<open>getHead\<close> reads the head reference and its upstream; a missing upstream is caught
  (\<open>.catch(_.noop)\<close>) and stays \<open>undefined\<close>, and \<open>callProp\<close> on \<open>undefined\<close> is
  \<open>undefined\<close>.  \<open>getCurrentBranchName\<close> joins the shorthands that exist with
  \<open>...\<close>.\<close>

definition getCurrentBranchName :: "git_repo option \<Rightarrow> js_error + string" where
  "getCurrentBranchName r =
     (case r of
        None \<Rightarrow> Inl GitError
      | Some repo \<Rightarrow>
          (case repo_head repo of
             None \<Rightarrow> Inl GitError
           | Some h \<Rightarrow>
               Inr (join ''...''
                 (shorthand h #
                    (case repo_upstream repo of None \<Rightarrow> [] | Some u \<Rightarrow> [shorthand u])))))"

text \<open>\<open>status\<close>: the path and the flag of every entry.\<close>

definition git_status :: "git_repo option \<Rightarrow> js_error + (string \<times> string) list" where
  "git_status r =
     (case r of
        None \<Rightarrow> Inl GitError
      | Some repo \<Rightarrow>
          (case repo_statuses repo of
             None \<Rightarrow> Inl GitError
           | Some ss \<Rightarrow> Inr (map (\<lambda>x. (status_path x, getStatusFlag x)) ss)))"

text \<open>The result of \<open>getCurrentAheadBehind\<close>: the object of
  \<open>nodegit.Graph.aheadBehind\<close> (two unsigned counts), or the literal \<open>{}\<close>.\<close>

datatype ahead_behind = EmptyObject | AheadBehind nat nat

definition upstream_target :: "git_repo \<Rightarrow> oid option" where
  "upstream_target repo = (case repo_upstream repo of None \<Rightarrow> None | Some u \<Rightarrow> target u)"

text \<open>\<open>getCurrentAheadBehind\<close>: the repository, the target of the head and the target of
  its upstream; when all three exist the graph is asked, otherwise the result is \<open>{}\<close>.
  A repository that does not open and a head that cannot be read reject the whole
  flow.\<close>

definition getCurrentAheadBehind :: "git_repo option \<Rightarrow> js_error + ahead_behind" where
  "getCurrentAheadBehind r =
     (case r of
        None \<Rightarrow> Inl GitError
      | Some repo \<Rightarrow>
          (case repo_head repo of
             None \<Rightarrow> Inl GitError
           | Some h \<Rightarrow>
               (case (target h, upstream_target repo) of
                  (Some l, Some u) \<Rightarrow>
                    (case graph_aheadBehind repo l u of
                       None \<Rightarrow> Inl GitError
                     | Some (a, b) \<Rightarrow> Inr (AheadBehind a b))
                | _ \<Rightarrow> Inr EmptyObject)))"

text \<open>The commit of the head and of its upstream as the specification speaks of them:
  resolved when the repository opens, the reference can be read and has a target.\<close>

definition head_commit :: "git_repo option \<Rightarrow> oid option" where
  "head_commit r =
     (case r of None \<Rightarrow> None
      | Some repo \<Rightarrow> (case repo_head repo of None \<Rightarrow> None | Some h \<Rightarrow> target h))"

definition upstream_commit :: "git_repo option \<Rightarrow> oid option" where
  "upstream_commit r =
     (case r of None \<Rightarrow> None
      | Some repo \<Rightarrow> (case repo_head repo of None \<Rightarrow> None | Some h \<Rightarrow> upstream_target repo))"

text \<open>\<open>descendantOfHead\<close>: the head and the named reference, both peeled to commits, and
  \<open>nodegit.Graph.descendantOf\<close> of the two, made a boolean.  Each nodegit call may
  reject; a call that resolves yields an object, so the fallback \<open>0\<close> of the
  \<open>_.switch\<close> is not reached.\<close>

definition descendantOfHead :: "string \<Rightarrow> git_repo option \<Rightarrow> js_error + bool" where
  "descendantOfHead s r =
     (case r of
        None \<Rightarrow> Inl GitError
      | Some repo \<Rightarrow>
          (case repo_head repo of
             None \<Rightarrow> Inl GitError
           | Some h \<Rightarrow>
           (case repo_peel repo h of
             None \<Rightarrow> Inl GitError
           | Some hc \<Rightarrow>
           (case repo_reference repo s of
             None \<Rightarrow> Inl GitError
           | Some t \<Rightarrow>
           (case repo_peel repo t of
             None \<Rightarrow> Inl GitError
           | Some tc \<Rightarrow>
           (case graph_descendantOf repo hc tc of
             None \<Rightarrow> Inl GitError
           | Some n \<Rightarrow> Inr (n \<noteq> 0)))))))"

definition getTags :: "git_repo option \<Rightarrow> js_error + string list" where
  "getTags r =
     (case r of
        None \<Rightarrow> Inl GitError
      | Some repo \<Rightarrow> (case repo_tags repo of None \<Rightarrow> Inl GitError | Some ts \<Rightarrow> Inr ts))"

section \<open>The module snapshot\<close>

text \<open>The fields of \<open>package.json\<close> the tool reads.  The two dependency sections are
  given by their keys, in the order \<open>Object.keys\<close> lists them.\<close>

record package_json =
  pkg_name :: "string option"
  pkg_version :: "string option"
  nopack :: bool
  dependencies :: "string list option"
  devDependencies :: "string list option"

record package_lock_json =
  lock_version :: "string option"

text \<open>Everything outside the process that a command reads: the directory tree, what
  nodegit opens at a path, the parsed manifest and lockfile at a path, \<open>HOME\<close>, and
  the width of the terminal (\<open>process.stdout.columns\<close>, \<open>undefined\<close> without a
  terminal).\<close>

record world =
  tree :: fsnode
  repo_at :: "path \<Rightarrow> git_repo option"
  package_at :: "path \<Rightarrow> package_json option"
  package_lock_at :: "path \<Rightarrow> package_lock_json option"
  home :: string
  columns :: "int option"

definition path_text :: "path \<Rightarrow> string" where
  "path_text p = concat (map (\<lambda>c. ''/'' @ c) p)"

text \<open>\<open>_.replaceOne(pat, rep)\<close>: the first occurrence replaced.\<close>

fun replaceOne :: "string \<Rightarrow> string \<Rightarrow> string \<Rightarrow> string" where
  "replaceOne pat rep [] = (if pat = [] then rep else [])"
| "replaceOne pat rep (c # cs) =
     (if prefix pat (c # cs) then rep @ drop (length pat) (c # cs)
      else c # replaceOne pat rep cs)"

text \<open>The snapshot \<open>getInfo\<close> builds.  Its \<open>repo\<close> field (the opened handle) is read by
  no command and is left out.\<close>

record info =
  path :: path
  fmt_path :: string
  origin_url :: "string option"
  tags :: "string list option"
  branch :: "string option"
  status :: "(string \<times> string) list option"
  ahead_behind :: "ahead_behind option"
  package :: "package_json option"
  package_lock :: "package_lock_json option"
  module :: "string option"
  version :: "string option"
  vmodule :: string
  semver :: string

text \<open>\<open>_.get('package.name')\<close> and its like: \<open>undefined\<close> when the manifest is.\<close>

definition get_name :: "package_json option \<Rightarrow> string option" where
  "get_name p = (case p of None \<Rightarrow> None | Some pkg \<Rightarrow> pkg_name pkg)"

definition get_version :: "package_json option \<Rightarrow> string option" where
  "get_version p = (case p of None \<Rightarrow> None | Some pkg \<Rightarrow> pkg_version pkg)"

definition get_nopack :: "package_json option \<Rightarrow> bool" where
  "get_nopack p = (case p of None \<Rightarrow> False | Some pkg \<Rightarrow> nopack pkg)"

definition join_option :: "'a option option \<Rightarrow> 'a option" where
  "join_option v = (case v of None \<Rightarrow> None | Some u \<Rightarrow> u)"

text \<open>\<open>getInfo\<close> as a value: the snapshot it resolves to.  A git read that rejects
  leaves its field \<open>undefined\<close> and, being caught by \<open>console.error\<close>, writes one line;
  these lines are the effect of \<open>getInfo\<close>, given by \<open>getInfo_errors\<close> with the commands
  below, every one of which carries them in its trace.\<close>

definition getInfo :: "world \<Rightarrow> path \<Rightarrow> info" where
  "getInfo w p =
     (let r = repo_at w p; pkg = package_at w p in
      \<lparr> path = p,
        fmt_path = replaceOne (home w) ''~'' (path_text p),
        origin_url = join_option (tryCatch (getRemoteUrl ''origin'' r)),
        tags = tryCatch (getTags r),
        branch = tryCatch (getCurrentBranchName r),
        status = tryCatch (git_status r),
        ahead_behind = tryCatch (getCurrentAheadBehind r),
        package = pkg,
        package_lock = package_lock_at w p,
        module = get_name pkg,
        version = get_version pkg,
        vmodule = join ''@'' [join_text (get_name pkg), join_text (get_version pkg)],
        semver = ''v'' @ template_text (get_version pkg) \<rparr>)"

section \<open>The gating predicates\<close>

text \<open>\<open>_.get('ahead')\<close> and \<open>_.get('behind')\<close> of the \<open>ahead_behind\<close> field: \<open>undefined\<close>
  for \<open>{}\<close> and for a missing field.\<close>

fun get_ahead :: "ahead_behind option \<Rightarrow> nat option" where
  "get_ahead (Some (AheadBehind a b)) = Some a"
| "get_ahead (Some EmptyObject) = None"
| "get_ahead None = None"

fun get_behind :: "ahead_behind option \<Rightarrow> nat option" where
  "get_behind (Some (AheadBehind a b)) = Some b"
| "get_behind (Some EmptyObject) = None"
| "get_behind None = None"

text \<open>The comparisons of \<open>rubico\<close> with a number on the right.  \<open>_.eq\<close> is false for
  \<open>undefined\<close>; \<open>_.gt\<close> and \<open>_.gte\<close> answer true for \<open>undefined\<close> on the left.\<close>

definition js_gt :: "nat option \<Rightarrow> nat \<Rightarrow> bool" where
  "js_gt v n = (case v of None \<Rightarrow> True | Some m \<Rightarrow> n < m)"

definition js_gte :: "nat option \<Rightarrow> nat \<Rightarrow> bool" where
  "js_gte v n = (case v of None \<Rightarrow> True | Some m \<Rightarrow> n \<le> m)"

definition js_eq :: "nat option \<Rightarrow> nat \<Rightarrow> bool" where
  "js_eq v n = (case v of None \<Rightarrow> False | Some m \<Rightarrow> m = n)"

text \<open>\<open>_.and\<close>: every conjunct is evaluated.  A conjunct that throws rejects the
  conjunction, also when another conjunct is false; otherwise the result is true when
  all of them are.\<close>

fun and_all :: "(js_error + bool) list \<Rightarrow> js_error + bool" where
  "and_all [] = Inr True"
| "and_all (c # cs) =
     (case c of
        Inl e \<Rightarrow> Inl e
      | Inr b \<Rightarrow> (case and_all cs of Inl e \<Rightarrow> Inl e | Inr r \<Rightarrow> Inr (b \<and> r)))"

text \<open>\<open>_.flow(_.get('branch'), _.split('...'), _.size, _.eq(_.id, 2))\<close> and
  \<open>_.flow(_.get('status'), _.isEmpty)\<close>.  Splitting, and taking the size of,
  \<open>undefined\<close> throws.\<close>

definition branch_two_parts :: "info \<Rightarrow> js_error + bool" where
  "branch_two_parts x =
     (case branch x of None \<Rightarrow> Inl TypeError
      | Some b \<Rightarrow> Inr (length (split ''...'' b) = 2))"

definition status_isEmpty :: "info \<Rightarrow> js_error + bool" where
  "status_isEmpty x =
     (case status x of None \<Rightarrow> Inl TypeError | Some s \<Rightarrow> Inr (s = []))"

text \<open>The predicate of \<open>merge\<close> (the condition of its \<open>_.switch\<close>).\<close>

definition merge_pred :: "info \<Rightarrow> js_error + bool" where
  "merge_pred x =
     and_all
       [branch_two_parts x,
        status_isEmpty x,
        Inr (js_gt (get_behind (ahead_behind x)) 0),
        Inr (js_eq (get_ahead (ahead_behind x)) 0)]"

text \<open>The predicate of \<open>push\<close> (the argument of its \<open>_.filter\<close>).\<close>

definition push_pred :: "info \<Rightarrow> js_error + bool" where
  "push_pred x =
     and_all
       [branch_two_parts x,
        Inr (js_gt (get_ahead (ahead_behind x)) 0),
        Inr (js_eq (get_behind (ahead_behind x)) 0)]"

text \<open>\<open>_.get('tags', [])\<close>.\<close>

definition get_tags :: "info \<Rightarrow> string list" where
  "get_tags x = (case tags x of None \<Rightarrow> [] | Some ts \<Rightarrow> ts)"

text \<open>The second conjunct of the predicate of \<open>dist\<close>: when the tags hold the
  snapshot's \<open>semver\<close>, \<open>git.descendantOfHead\<close> of that tag at the snapshot's path;
  otherwise the constant \<open>false\<close>.  The first component of the result lists the
  references \<open>descendantOfHead\<close> was called with.\<close>

definition dist_tag_conjunct :: "world \<Rightarrow> info \<Rightarrow> string list \<times> (js_error + bool)" where
  "dist_tag_conjunct w x =
     (if semver x \<in> set (get_tags x)
      then ([semver x], descendantOfHead (semver x) (repo_at w (path x)))
      else ([], Inr False))"

text \<open>The predicate of \<open>dist\<close> (the argument of its \<open>_.filter\<close>).\<close>

definition dist_pred :: "world \<Rightarrow> info \<Rightarrow> js_error + bool" where
  "dist_pred w x =
     and_all
       [Inr (branch x = Some ''master...origin/master''),
        snd (dist_tag_conjunct w x),
        status_isEmpty x,
        Inr (js_eq (get_behind (ahead_behind x)) 0),
        Inr (js_gte (get_ahead (ahead_behind x)) 0),
        Inr (\<not> get_nopack (package x))]"

section \<open>The Dependency Linker\<close>

text \<open>\<open>link\<close> builds its store from \<open>{}\<close> with \<open>a[b.module] = b\<close>, one snapshot after
  the other.  A name becomes a property of the store, a later snapshot replacing an
  earlier one of the same name, and a snapshot without a name is stored under the
  property \<open>undefined\<close>.  The name \<open>__proto__\<close> is no property: assigning to it makes the
  snapshot the prototype of the store.\<close>

definition store_key :: "info \<Rightarrow> string" where
  "store_key b = template_text (module b)"

record module_store =
  stored :: "string \<rightharpoonup> info"
  store_proto :: "info option"

definition store_put :: "module_store \<Rightarrow> info \<Rightarrow> module_store" where
  "store_put a b =
     (if store_key b = ''__proto__'' then a \<lparr> store_proto := Some b \<rparr>
      else a \<lparr> stored := (stored a)(store_key b \<mapsto> b) \<rparr>)"

definition moduleStore :: "info list \<Rightarrow> module_store" where
  "moduleStore xs = foldl store_put \<lparr> stored = Map.empty, store_proto = None \<rparr> xs"

text \<open>What a lookup in the store yields is a stored snapshot or some other value.  Of
  another value only what \<open>link\<close> reads from an entry is kept: its \<open>path\<close> and its
  \<open>module\<close> where they are strings, and the text of \<open>${fmt_path} (${module})\<close>.\<close>

record foreign =
  foreign_path :: "string option"
  foreign_module :: "string option"
  foreign_text :: string

datatype found = Snapshot info | Foreign foreign

text \<open>The members every object inherits from \<open>Object.prototype\<close>.  Each is a function
  or an object without a \<open>path\<close>, a \<open>module\<close> or a \<open>fmt_path\<close>.\<close>

definition object_prototype_members :: "string list" where
  "object_prototype_members =
     [''constructor'', ''__defineGetter__'', ''__defineSetter__'', ''hasOwnProperty'',
      ''__lookupGetter__'', ''__lookupSetter__'', ''isPrototypeOf'',
      ''propertyIsEnumerable'', ''toString'', ''valueOf'', ''__proto__'',
      ''toLocaleString'']"

definition bare_foreign :: foreign where
  "bare_foreign =
     \<lparr> foreign_path = None, foreign_module = None, foreign_text = ''undefined (undefined)'' \<rparr>"

text \<open>Reading further property names from inside a snapshot (its fields, and what lies
  below them) or from inside \<open>Object.prototype\<close> depends on values that are not part
  of this model (the whole manifest, the members of strings and of functions).  It is a
  parameter: the value reached along the names, if one exists.  Such a value is never
  one of the stored snapshots.\<close>

datatype js_root = FromSnapshot info | FromObjectPrototype

type_synonym js_walk = "js_root \<Rightarrow> string list \<Rightarrow> foreign option"

text \<open>One property of the store: a stored snapshot; or, through the prototype of the
  store, the prototype itself under \<open>__proto__\<close> and an inherited member otherwise.\<close>

definition read_store :: "js_walk \<Rightarrow> module_store \<Rightarrow> string \<Rightarrow> found option" where
  "read_store wk a s =
     (case stored a s of
        Some b \<Rightarrow> Some (Snapshot b)
      | None \<Rightarrow>
          (case store_proto a of
             Some b \<Rightarrow>
               if s = ''__proto__'' then Some (Snapshot b)
               else map_option Foreign (wk (FromSnapshot b) [s])
           | None \<Rightarrow>
               if s \<in> set object_prototype_members then Some (Foreign bare_foreign)
               else None))"

text \<open>\<open>_.lookup(moduleStore)\<close> is \<open>_.get\<close> with the store and the key exchanged, and
  \<open>_.get\<close> reads a string key as a path: the key is split at every dot, the first name
  is read in the store and every further name in the value before it; a value that is
  missing on the way gives \<open>undefined\<close>.\<close>

definition lookup :: "js_walk \<Rightarrow> module_store \<Rightarrow> string \<Rightarrow> found option" where
  "lookup wk a k =
     (case split ''.'' k of
        [] \<Rightarrow> None
      | [s] \<Rightarrow> read_store wk a s
      | s # t # ts \<Rightarrow>
          map_option Foreign
            (case stored a s of
               Some b \<Rightarrow> wk (FromSnapshot b) (t # ts)
             | None \<Rightarrow>
                 (case store_proto a of
                    Some b \<Rightarrow>
                      if s = ''__proto__'' then wk (FromSnapshot b) (t # ts)
                      else wk (FromSnapshot b) (s # t # ts)
                  | None \<Rightarrow>
                      if s = ''__proto__'' then wk FromObjectPrototype (t # ts)
                      else if s \<in> set object_prototype_members
                      then wk FromObjectPrototype (s # t # ts)
                      else None)))"





section \<open>The commands with a dry-run flag\<close>

text \<open>
  A command is modelled by the list of its effects, in the order in which a run that takes
  one module after the other produces them, and the rejection that ended it, if any.
  Reading (the directory scan, nodegit, the manifests) is not an effect; the line
  \<open>console.error\<close> writes for a read that failed is one.
\<close>

datatype effect =
    Exec string "string list"                   \<comment> \<open>\<open>execa(cmd, args)\<close>\<close>
  | WritePackage string package_json            \<comment> \<open>\<open>fse.writeFile\<close> of the manifest\<close>
  | WritePackageLock string package_lock_json   \<comment> \<open>\<open>fse.writeFile\<close> of the lockfile\<close>
  | Remove string                               \<comment> \<open>\<open>fse.remove\<close>\<close>
  | EnsureSymlink "string option" string        \<comment> \<open>\<open>fse.ensureSymlink(target, link)\<close>\<close>
  | Stdout string                               \<comment> \<open>\<open>process.stdout.write\<close>, \<open>console.log\<close>\<close>
  | Stderr string                               \<comment> \<open>\<open>console.error\<close> of a text\<close>
  | ConsoleError js_error                       \<comment> \<open>\<open>console.error\<close> of a caught rejection\<close>
  | BarRender                                   \<comment> \<open>\<open>bar.render()\<close>\<close>
  | BarTick                                     \<comment> \<open>\<open>bar.tick()\<close>\<close>
  | BarInterrupt string                         \<comment> \<open>\<open>bar.interrupt(message)\<close>\<close>

text \<open>What the calls that change something answer, what \<open>semver.inc\<close> computes, and
  what reading inside a value yields.  \<open>exec_result cmd args n\<close> is the outcome of
  \<open>execa(cmd, args)\<close> (an error or the standard output); \<open>n\<close> is the attempt of a
  retried call, 0 for a single call.\<close>

record externals =
  exec_result :: "string \<Rightarrow> string list \<Rightarrow> nat \<Rightarrow> string + string"
  writeFile_ok :: "string \<Rightarrow> bool"
  remove_error :: "string \<Rightarrow> string option"
  symlink_error :: "string option \<Rightarrow> string \<Rightarrow> string option"
  semver_inc :: "string option \<Rightarrow> string \<Rightarrow> string option"
  walk :: js_walk

text \<open>The argument of a command: the root paths and the arguments after the command
  name.\<close>

record input =
  paths :: "path list"
  argv :: "string list"

text \<open>\<open>_.or.sync(_.has('--dry-run'), _.has('-n'))(input.argv)\<close>.\<close>

definition isDryRun :: "input \<Rightarrow> bool" where
  "isDryRun inp \<longleftrightarrow> ''--dry-run'' \<in> set (argv inp) \<or> ''-n'' \<in> set (argv inp)"

text \<open>A number in a template string.\<close>

fun show_nat :: "nat \<Rightarrow> string" where
  "show_nat n =
     (if n < 10 then [''0123456789'' ! n]
      else show_nat (n div 10) @ [''0123456789'' ! (n mod 10)])"

declare show_nat.simps [simp del]

text \<open>\<open>neatLogCollection\<close> writes the start of the line and the first text, then every
  further text after two blanks, or on a new indented line when the line would pass the
  width of the terminal less 20 (never, when the width is \<open>undefined\<close>), and ends
  with two line feeds.  Taking the length of a text that is \<open>undefined\<close> throws.\<close>

definition too_wide :: "int option \<Rightarrow> nat \<Rightarrow> bool" where
  "too_wide cols n = (case cols of None \<Rightarrow> False | Some c \<Rightarrow> c - 20 < int n)"

fun neatLogRest ::
  "int option \<Rightarrow> nat \<Rightarrow> nat \<Rightarrow> string option list \<Rightarrow> effect list \<times> js_error option" where
  "neatLogRest cols n cur [] = ([Stdout [CHR 0x0A, CHR 0x0A]], None)"
| "neatLogRest cols n cur (None # rest) = ([], Some TypeError)"
| "neatLogRest cols n cur (Some s # rest) =
     (if too_wide cols (cur + length s)
      then (let nextLine = CHR 0x0A # replicate n CHR '' '' @ s;
                r = neatLogRest cols n (length nextLine) rest
            in (Stdout nextLine # fst r, snd r))
      else (let r = neatLogRest cols n (cur + length s) rest
            in (Stdout (''  '' @ s) # fst r, snd r)))"

definition neatLogCollection ::
  "int option \<Rightarrow> string option list \<Rightarrow> string \<Rightarrow> effect list \<times> js_error option" where
  "neatLogCollection cols x lineStart =
     (case x of
        [] \<Rightarrow> ([], None)
      | None # rest \<Rightarrow> ([Stdout lineStart, Stdout ''undefined''], Some TypeError)
      | Some s # rest \<Rightarrow>
          (let r = neatLogRest cols (length lineStart) (length lineStart + length s) rest
           in (Stdout lineStart # Stdout s # fst r, snd r)))"




text \<open>\<open>if (x.length > 0) bar.render()\<close>.\<close>

definition bar_render :: "'a list \<Rightarrow> effect list" where
  "bar_render x = (if 0 < length x then [BarRender] else [])"

subsection \<open>The snapshots of a run\<close>

text \<open>\<open>getInfo\<close> wraps six reads in \<open>_.tryCatch(f, console.error)\<close>: the handle of the
  repository, the URL of \<open>origin\<close>, the tags, the branch, the status and the counts.
  Each of them that rejects writes one line; the lines are listed in the order of the
  fields, one module after the other.  (The manifest and the lockfile are caught by
  \<open>_.noop\<close>.)\<close>

definition caught :: "js_error + 'a \<Rightarrow> effect list" where
  "caught r = (case r of Inl e \<Rightarrow> [ConsoleError e] | Inr v \<Rightarrow> [])"

definition getRepo :: "git_repo option \<Rightarrow> js_error + git_repo" where
  "getRepo r = (case r of None \<Rightarrow> Inl GitError | Some repo \<Rightarrow> Inr repo)"

definition getInfo_errors :: "world \<Rightarrow> path \<Rightarrow> effect list" where
  "getInfo_errors w p =
     (let r = repo_at w p in
      caught (getRepo r) @
      caught (getRemoteUrl ''origin'' r) @
      caught (getTags r) @
      caught (getCurrentBranchName r) @
      caught (git_status r) @
      caught (getCurrentAheadBehind r))"

text \<open>The first two stages of every command: \<open>findModules\<close>, then \<open>getInfo\<close> on each
  module; the snapshots, and the lines of the reads that failed.\<close>

definition discover :: "world \<Rightarrow> input \<Rightarrow> info list" where
  "discover w inp = map (getInfo w) (findModules (tree w) (paths inp))"

definition discover_log :: "world \<Rightarrow> input \<Rightarrow> effect list" where
  "discover_log w inp = concat (map (getInfo_errors w) (findModules (tree w) (paths inp)))"

subsection \<open>push\<close>





subsection \<open>install\<close>

definition install_module :: "externals \<Rightarrow> bool \<Rightarrow> info \<Rightarrow> effect list" where
  "install_module ext dry x =
     (if dry then []
      else (let args = [''i'', ''--cache='' @ path_text (path x @ [''.npm'']), ''-C'',
                        path_text (path x), ''--no-package-lock'']
            in Exec ''npm'' args #
               (case exec_result ext ''npm'' args 0 of
                  Inl e \<Rightarrow> [BarInterrupt (''install failed: '' @ e)]
                | Inr out \<Rightarrow> []))) @
     [BarTick]"

definition install :: "world \<Rightarrow> externals \<Rightarrow> input \<Rightarrow> effect list \<times> js_error option" where
  "install w ext inp =
     (let x = discover w inp in
      case neatLogCollection (columns w) (map module x)
             (''installing ('' @ show_nat (length x) @ '') '') of
        (es, Some e) \<Rightarrow> (discover_log w inp @ es, Some e)
      | (es, None) \<Rightarrow>
          (discover_log w inp @ es @ bar_render x @
           concat (map (install_module ext (isDryRun inp)) x), None))"

subsection \<open>link\<close>











subsection \<open>dist\<close>













subsection \<open>Kinds of effects\<close>







text \<open>Whether the head reference can be read at all.\<close>

definition head_readable :: "git_repo option \<Rightarrow> bool" where
  "head_readable r = (case r of None \<Rightarrow> False | Some repo \<Rightarrow> repo_head repo \<noteq> None)"

section \<open>Example checkouts and snapshots\<close>

text \<open>A checkout on \<open>master\<close> that tracks \<open>origin/master\<close>.  Commits are numbered along
  one line of history, the head at 2 and its upstream at 1; the only tag is
  \<open>v0.9.0\<close>, on commit 1.\<close>

definition tracking_repo :: git_repo where
  "tracking_repo =
     \<lparr> repo_head = Some \<lparr>shorthand = ''master'', target = Some 2\<rparr>,
       repo_upstream = Some \<lparr>shorthand = ''origin/master'', target = Some 1\<rparr>,
       repo_statuses = Some [],
       repo_tags = Some [''v0.9.0''],
       repo_remote_url =
         (\<lambda>n. if n = ''origin'' then Some ''git@github.com:chimaera-node/cli.git'' else None),
       repo_reference =
         (\<lambda>s. if s = ''v0.9.0'' then Some \<lparr>shorthand = ''v0.9.0'', target = Some 1\<rparr>
              else None),
       repo_peel = target,
       graph_aheadBehind = (\<lambda>l u. Some (l - u, u - l)),
       graph_descendantOf = (\<lambda>c a. Some (if a < c then 1 else 0)) \<rparr>"

text \<open>The same checkout cloned over https, and one whose head cannot be read (a
  repository without a commit).\<close>

definition https_repo :: git_repo where
  "https_repo =
     tracking_repo
       \<lparr> repo_remote_url :=
           (\<lambda>n. if n = ''origin'' then Some ''https://github.com/chimaera-node/cli.git''
                else None) \<rparr>"

definition unborn_repo :: git_repo where
  "unborn_repo = tracking_repo \<lparr> repo_head := None, repo_upstream := None \<rparr>"

text \<open>A world over \<open>workspace_tree\<close>: module \<open>a\<close> at version 1.0.0 depends on \<open>b\<close> in
  both sections and on \<open>mocha\<close>, which is not a local module.\<close>

definition example_world :: world where
  "example_world =
     \<lparr> tree = workspace_tree,
       repo_at = (\<lambda>p. if p = [''ws'', ''a''] \<or> p = [''ws'', ''grp'', ''b'']
                       then Some tracking_repo else None),
       package_at =
         (\<lambda>p. if p = [''ws'', ''a'']
              then Some \<lparr> pkg_name = Some ''a'', pkg_version = Some ''1.0.0'', nopack = False,
                          dependencies = Some [''b''],
                          devDependencies = Some [''b'', ''mocha''] \<rparr>
              else if p = [''ws'', ''grp'', ''b'']
              then Some \<lparr> pkg_name = Some ''b'', pkg_version = Some ''0.9.0'', nopack = False,
                          dependencies = None, devDependencies = None \<rparr>
              else None),
       package_lock_at = (\<lambda>p. None),
       home = ''/ws'',
       columns = Some 80 \<rparr>"

text \<open>The two snapshots of the specification's first scenario: \<open>moduleX\<close> is two commits
  ahead, \<open>moduleY\<close> one commit behind, both clean and on \<open>main...origin/main\<close>.\<close>

definition moduleX :: info where
  "moduleX =
     \<lparr> path = [''ws'', ''moduleX''], fmt_path = ''~/moduleX'',
       origin_url = Some ''github.com:chimaera-node/moduleX.git'',
       tags = Some [], branch = Some ''main...origin/main'', status = Some [],
       ahead_behind = Some (AheadBehind 2 0),
       package = None, package_lock = None,
       module = Some ''moduleX'', version = Some ''1.2.3'',
       vmodule = ''moduleX@1.2.3'', semver = ''v1.2.3'' \<rparr>"

definition moduleY :: info where
  "moduleY =
     moduleX \<lparr> path := [''ws'', ''moduleY''], fmt_path := ''~/moduleY'',
       ahead_behind := Some (AheadBehind 0 1),
       module := Some ''moduleY'', vmodule := ''moduleY@1.2.3'' \<rparr>"

section \<open>Properties\<close>

subsection \<open>Strings\<close>

lemma splitAcc_not_Nil: "splitAcc d ds acc s \<noteq> []"
  by (induction d ds acc s rule: splitAcc.induct) auto

lemma join_Cons: "join d (x # xs) = (if xs = [] then x else x @ d @ join d xs)"
  by (cases xs) auto

lemma join_splitAcc: "join (d # ds) (splitAcc d ds acc s) = rev acc @ s"
proof (induction d ds acc s rule: splitAcc.induct)
  case (1 d ds acc)
  then show ?case by simp
next
  case (2 d ds acc c cs)
  show ?case
  proof (cases "prefix (d # ds) (c # cs)")
    case True
    then have dc: "d = c" and p: "prefix ds cs" by auto
    from p have cs: "cs = ds @ drop (length ds) cs"
      by (metis append_eq_conv_conj prefixE)
    have "join (d # ds) (splitAcc d ds acc (c # cs))
        = rev acc @ (d # ds) @ join (d # ds) (splitAcc d ds [] (drop (length ds) cs))"
      using True by (simp add: join_Cons splitAcc_not_Nil)
    also have "\<dots> = rev acc @ (d # ds) @ drop (length ds) cs"
      using "2.IH"(1)[OF True] by simp
    also have "\<dots> = rev acc @ c # cs"
      using dc cs by simp
    finally show ?thesis .
  next
    case False
    then show ?thesis using "2.IH"(2) by auto
  qed
qed

lemma join_split: "sep \<noteq> [] \<Longrightarrow> join sep (split sep s) = s"
  by (cases sep) (simp_all add: split_def join_splitAcc)

lemma split_two:
  assumes "split sep s = [l, u]" and "sep \<noteq> []"
  shows "s = l @ sep @ u"
  using join_split[OF assms(2), of s] assms(1) by simp

subsection \<open>Status flags\<close>

text \<open>
  C8.  The flag \<open>getStatusFlag\<close> reports is the flag of the last predicate that matches,
  with the predicates taken in the order C, D, I, M, new, R, T (padded on the left to two
  characters).  A file that is modified and new, and matches neither of the two later
  predicates (renamed, type-changed), reports the flag of new, whatever the earlier
  predicates say.
\<close>

theorem getStatusFlag_last_match:
  "getStatusFlag x = padStart 2 CHR '' '' (last_matching_flag x) \<and>
   (isModified x \<and> isNew x \<and> \<not> isRenamed x \<and> \<not> isTypechange x \<longrightarrow> getStatusFlag x = ''??'')"
  by (simp add: getStatusFlag_def last_matching_flag_def flag_order_def padStart_def Let_def)

theorem getStatusFlag_last_match_witness:
  "getStatusFlag \<lparr>status_path = ''a.js'', isConflicted = False, isDeleted = False,
      isIgnored = False, isModified = True, isNew = True, isRenamed = False,
      isTypechange = False\<rparr> = ''??''"
  using conjunct2 [OF getStatusFlag_last_match
    [of "\<lparr>status_path = ''a.js'', isConflicted = False, isDeleted = False,
      isIgnored = False, isModified = True, isNew = True, isRenamed = False,
      isTypechange = False\<rparr>"]]
  by simp

subsection \<open>The Module Locator\<close>

lemma set_uniq: "set (uniq xs) = set xs"
  by (induction xs rule: uniq.induct) auto

lemma between_prefixes:
  assumes "prefix x q" and "strict_prefix q r" and "prefix (x @ [y]) r"
  shows "q = x \<or> prefix (x @ [y]) q"
proof (cases "q = x")
  case True
  then show ?thesis by simp
next
  case False
  from assms(1) obtain s where q: "q = x @ s" by (auto simp: prefix_def)
  with False have "s \<noteq> []" by auto
  then obtain a s' where s: "s = a # s'" by (cases s) auto
  from assms(2) have "prefix q r" by (simp add: strict_prefix_def)
  then obtain t where r: "r = x @ a # s' @ t" using q s by (auto simp: prefix_def)
  from assms(3) r have "a = y" by (auto simp: prefix_def)
  then show ?thesis using q s by simp
qed

text \<open>Every returned path is a module reached from one of the given paths through
  directories that are not modules.\<close>

lemma findModules_origin:
  "r \<in> set (findModules fs ps) \<Longrightarrow>
   \<exists>x \<in> set ps. prefix x r \<and> is_module fs r \<and>
     (\<forall>q. prefix x q \<and> strict_prefix q r \<longrightarrow> \<not> is_module fs q)"
proof (induction fs ps arbitrary: r rule: findModules.induct)
  case (1 fs ps)
  from "1.prems" obtain x where x: "x \<in> set ps"
    and r: "r \<in> set (case readdir fs x of None \<Rightarrow> []
             | Some es \<Rightarrow> if ''.git'' \<in> set es \<and> ''package.json'' \<in> set es then [x]
                 else findModules fs (map (\<lambda>y. x @ [y]) es))"
    by (subst (asm) findModules.simps) (auto simp: set_uniq)
  from r obtain es where es: "readdir fs x = Some es" by (cases "readdir fs x") auto
  show ?case
  proof (cases "''.git'' \<in> set es \<and> ''package.json'' \<in> set es")
    case True
    with r es have "r = x" by simp
    moreover have "is_module fs x" using es True by (simp add: is_module_def)
    ultimately show ?thesis using x by (auto simp: strict_prefix_def)
  next
    case False
    with r es have "r \<in> set (findModules fs (map (\<lambda>y. x @ [y]) es))" by simp
    from "1.IH"[OF x es False this] obtain y where y: "y \<in> set es"
      and p: "prefix (x @ [y]) r" and m: "is_module fs r"
      and b: "\<forall>q. prefix (x @ [y]) q \<and> strict_prefix q r \<longrightarrow> \<not> is_module fs q"
      by auto
    have nx: "\<not> is_module fs x" using es False by (simp add: is_module_def)
    have "prefix x r" using p by (meson append_prefixD)
    moreover have "\<forall>q. prefix x q \<and> strict_prefix q r \<longrightarrow> \<not> is_module fs q"
      using between_prefixes[OF _ _ p] nx b by blast
    ultimately show ?thesis using x m by blast
  qed
qed

lemma strict_prefix_Cons_iff:
  "strict_prefix q (y # ys) \<longleftrightarrow> q = [] \<or> (\<exists>q'. q = y # q' \<and> strict_prefix q' ys)"
  by (cases q) auto

text \<open>
  C2, as the code has it.  When no root lies strictly inside a module directory, no
  returned path is a strict descendant of another returned path; roots may repeat and
  may lie inside other roots.
\<close>

theorem findModules_not_nested:
  assumes "\<forall>x \<in> set roots. \<forall>q. strict_prefix q x \<longrightarrow> \<not> is_module fs q"
    and "r1 \<in> set (findModules fs roots)" and "r2 \<in> set (findModules fs roots)"
  shows "\<not> strict_prefix r1 r2"
proof
  assume sp: "strict_prefix r1 r2"
  from findModules_origin[OF assms(2)] have m1: "is_module fs r1" by blast
  from findModules_origin[OF assms(3)] obtain x where x: "x \<in> set roots"
    and p: "prefix x r2"
    and b: "\<forall>q. prefix x q \<and> strict_prefix q r2 \<longrightarrow> \<not> is_module fs q" by blast
  from sp have "prefix r1 r2" by (simp add: strict_prefix_def)
  with p have "prefix x r1 \<or> strict_prefix r1 x"
    by (metis prefix_order.less_le prefix_same_cases)
  then show False
  proof
    assume "prefix x r1"
    with b sp m1 show False by blast
  next
    assume "strict_prefix r1 x"
    with assms(1) x m1 show False by blast
  qed
qed

lemma findModules_workspace:
  "findModules workspace_tree [[''ws''], [''ws'', ''grp'']] =
     [[''ws'', ''a''], [''ws'', ''grp'', ''b'']]"
  by code_simp

theorem findModules_not_nested_witness:
  "findModules workspace_tree [[''ws''], [''ws'', ''grp'']] =
     [[''ws'', ''a''], [''ws'', ''grp'', ''b'']] \<and>
   \<not> is_module workspace_tree [] \<and> \<not> is_module workspace_tree [''ws''] \<and>
   \<not> strict_prefix [''ws'', ''a''] [''ws'', ''grp'', ''b'']"
proof -
  have n0: "\<not> is_module workspace_tree []" by code_simp
  have n1: "\<not> is_module workspace_tree [''ws'']" by code_simp
  have h: "\<forall>x \<in> set [[''ws''], [''ws'', ''grp'']].
             \<forall>q. strict_prefix q x \<longrightarrow> \<not> is_module workspace_tree q"
    using n0 n1 by (auto simp: strict_prefix_Cons_iff)
  have "\<not> strict_prefix [''ws'', ''a''] [''ws'', ''grp'', ''b'']"
    by (rule findModules_not_nested[OF h]) (simp_all add: findModules_workspace)
  then show ?thesis using n0 n1 findModules_workspace by simp
qed

text \<open>With a root inside a module the claim fails: the module \<open>m\<close> and the module
  \<open>m/sub\<close> below it are both returned.\<close>

lemma findModules_nested_tree:
  "findModules nested_tree [[''m''], [''m'', ''sub'']] = [[''m''], [''m'', ''sub'']]"
  by code_simp

theorem findModules_nested_counterexample:
  "[''m''] \<in> set (findModules nested_tree [[''m''], [''m'', ''sub'']]) \<and>
   [''m'', ''sub''] \<in> set (findModules nested_tree [[''m''], [''m'', ''sub'']]) \<and>
   strict_prefix [''m''] [''m'', ''sub'']"
  by (simp add: findModules_nested_tree)

subsection \<open>The predicates of merge and push\<close>

lemma and_all_True: "and_all cs = Inr True \<longleftrightarrow> (\<forall>c \<in> set cs. c = Inr True)"
  by (induction cs) (auto split: sum.splits)

lemma length_two: "length xs = 2 \<longleftrightarrow> (\<exists>a b. xs = [a, b])"
  by (cases xs; cases "tl xs") auto

lemma branch_two_parts_True:
  "branch_two_parts x = Inr True \<longleftrightarrow> (\<exists>b l u. branch x = Some b \<and> split ''...'' b = [l, u])"
  by (auto simp: branch_two_parts_def length_two split: option.splits)

lemma branch_two_parts_text:
  assumes "branch_two_parts x = Inr True"
  shows "\<exists>l u. branch x = Some (l @ ''...'' @ u)"
proof -
  from assms obtain b l u where b: "branch x = Some b" and s: "split ''...'' b = [l, u]"
    by (auto simp: branch_two_parts_True)
  have "b = l @ ''...'' @ u" by (rule split_two[OF s]) simp
  with b show ?thesis by blast
qed

lemma status_isEmpty_True: "status_isEmpty x = Inr True \<longleftrightarrow> status x = Some []"
  by (auto simp: status_isEmpty_def split: option.splits)

lemma js_gt_0: "js_gt (get_behind v) 0 \<longleftrightarrow> (\<forall>a b. v = Some (AheadBehind a b) \<longrightarrow> 0 < b)"
  by (cases v rule: get_behind.cases) (auto simp: js_gt_def)

lemma js_gt_ahead_0: "js_gt (get_ahead v) 0 \<longleftrightarrow> (\<forall>a b. v = Some (AheadBehind a b) \<longrightarrow> 0 < a)"
  by (cases v rule: get_ahead.cases) (auto simp: js_gt_def)

lemma js_eq_ahead_0: "js_eq (get_ahead v) 0 \<longleftrightarrow> (\<exists>b. v = Some (AheadBehind 0 b))"
  by (cases v rule: get_ahead.cases) (auto simp: js_eq_def)

lemma js_eq_behind_0: "js_eq (get_behind v) 0 \<longleftrightarrow> (\<exists>a. v = Some (AheadBehind a 0))"
  by (cases v rule: get_behind.cases) (auto simp: js_eq_def)

lemma merge_pred_True:
  "merge_pred x = Inr True \<longleftrightarrow>
     branch_two_parts x = Inr True \<and> status x = Some [] \<and>
     (\<exists>b. ahead_behind x = Some (AheadBehind 0 b) \<and> 0 < b)"
  unfolding merge_pred_def and_all_True
  by (auto simp: status_isEmpty_True js_gt_0 js_eq_ahead_0)

lemma push_pred_True:
  "push_pred x = Inr True \<longleftrightarrow>
     branch_two_parts x = Inr True \<and> (\<exists>a. ahead_behind x = Some (AheadBehind a 0) \<and> 0 < a)"
  unfolding push_pred_def and_all_True
  by (auto simp: js_gt_ahead_0 js_eq_behind_0)

text \<open>
  C4.  A snapshot the predicate of \<open>merge\<close> selects has a branch string with a local and
  an upstream part around \<open>...\<close>, an empty working-tree status, \<open>ahead = 0\<close> and
  \<open>behind > 0\<close>.  So no snapshot with a non-empty status, with \<open>ahead > 0\<close> or with
  \<open>behind = 0\<close> is selected.
\<close>

theorem merge_pred_selects_only:
  assumes "merge_pred x = Inr True"
  shows "(\<exists>l u. branch x = Some (l @ ''...'' @ u)) \<and> status x = Some [] \<and>
         (\<exists>b. ahead_behind x = Some (AheadBehind 0 b) \<and> 0 < b)"
  using assms branch_two_parts_text[of x] by (simp add: merge_pred_True)

lemma merge_pred_moduleY: "merge_pred moduleY = Inr True"
  by (simp add: merge_pred_def moduleY_def moduleX_def branch_two_parts_def status_isEmpty_def
      split_def js_gt_def js_eq_def)

theorem merge_pred_selects_only_witness:
  "merge_pred moduleY = Inr True \<and>
   (\<exists>l u. branch moduleY = Some (l @ ''...'' @ u)) \<and> status moduleY = Some [] \<and>
   (\<exists>b. ahead_behind moduleY = Some (AheadBehind 0 b) \<and> 0 < b)"
  using merge_pred_selects_only[OF merge_pred_moduleY] merge_pred_moduleY by simp

text \<open>
  C5.  A snapshot the predicate of \<open>push\<close> selects has a branch string with a local and
  an upstream part around \<open>...\<close>, \<open>ahead > 0\<close> and \<open>behind = 0\<close>.  So no snapshot
  with \<open>behind > 0\<close> or with \<open>ahead = 0\<close> is selected.
\<close>

theorem push_pred_selects_only:
  assumes "push_pred x = Inr True"
  shows "(\<exists>l u. branch x = Some (l @ ''...'' @ u)) \<and>
         (\<exists>a. ahead_behind x = Some (AheadBehind a 0) \<and> 0 < a)"
  using assms branch_two_parts_text[of x] by (simp add: push_pred_True)

lemma push_pred_moduleX: "push_pred moduleX = Inr True"
  by (simp add: push_pred_def moduleX_def branch_two_parts_def split_def js_gt_def js_eq_def)

theorem push_pred_selects_only_witness:
  "push_pred moduleX = Inr True \<and>
   (\<exists>l u. branch moduleX = Some (l @ ''...'' @ u)) \<and>
   (\<exists>a. ahead_behind moduleX = Some (AheadBehind a 0) \<and> 0 < a)"
  using push_pred_selects_only[OF push_pred_moduleX] push_pred_moduleX by simp

text \<open>
  C10.  No snapshot is selected by both predicates: one that \<open>merge\<close> selects is not
  selected by \<open>push\<close>.
\<close>

theorem merge_push_exclusive:
  assumes "merge_pred x = Inr True"
  shows "push_pred x \<noteq> Inr True"
  using assms by (auto simp: merge_pred_True push_pred_True)

theorem merge_push_exclusive_witness:
  "merge_pred moduleY = Inr True \<and> push_pred moduleY \<noteq> Inr True"
  using merge_push_exclusive[OF merge_pred_moduleY] merge_pred_moduleY by simp

subsection \<open>The remote URL\<close>

text \<open>
  C3.  The claim asks for the URL as a string whenever it can be read.  For a remote
  whose URL has no \<open>@\<close>, here the https URL of a clone, \<open>getRemoteUrl\<close> returns
  \<open>undefined\<close>: the split has one piece and the piece at index 1 is missing.
\<close>

theorem getRemoteUrl_https_undefined:
  "getRemoteUrl ''origin'' (Some https_repo) = Inr None"
  by (simp add: getRemoteUrl_def https_repo_def tracking_repo_def split_def get_index_def)

lemma getRemoteUrl_ssh:
  "getRemoteUrl ''origin'' (Some tracking_repo) = Inr (Some ''github.com:chimaera-node/cli.git'')"
  by (simp add: getRemoteUrl_def tracking_repo_def split_def get_index_def)

subsection \<open>Ahead and behind\<close>

text \<open>
  C6, as the code has it.  \<open>getCurrentAheadBehind\<close> returns \<open>{}\<close> exactly when the
  repository opens and its head can be read, but the commit of the head or of its upstream
  is missing.  When the repository does not open or the head cannot be read the call
  rejects.  When both commits are there, the result is what the graph query gives: a
  rejection, or an object with both counts, which are natural numbers.
\<close>

theorem getCurrentAheadBehind_cases:
  "(getCurrentAheadBehind r = Inr EmptyObject \<longleftrightarrow>
      head_readable r \<and> (head_commit r = None \<or> upstream_commit r = None)) \<and>
   (\<not> head_readable r \<longrightarrow> getCurrentAheadBehind r = Inl GitError) \<and>
   (\<forall>l u. head_commit r = Some l \<and> upstream_commit r = Some u \<longrightarrow>
      (\<exists>repo. r = Some repo \<and>
         getCurrentAheadBehind r =
           (case graph_aheadBehind repo l u of
              None \<Rightarrow> Inl GitError
            | Some (a, b) \<Rightarrow> Inr (AheadBehind a b))))"
  by (auto simp: getCurrentAheadBehind_def head_readable_def head_commit_def upstream_commit_def
      split: option.splits prod.splits)

theorem getCurrentAheadBehind_cases_witness:
  "\<not> head_readable (Some unborn_repo) \<and>
   getCurrentAheadBehind (Some unborn_repo) = Inl GitError \<and>
   head_commit (Some tracking_repo) = Some 2 \<and> upstream_commit (Some tracking_repo) = Some 1 \<and>
   getCurrentAheadBehind (Some tracking_repo) = Inr (AheadBehind 1 0)"
proof -
  have a: "\<not> head_readable (Some unborn_repo)"
    by (simp add: head_readable_def unborn_repo_def)
  have h: "head_commit (Some tracking_repo) = Some 2 \<and> upstream_commit (Some tracking_repo) = Some 1"
    by (simp add: head_commit_def upstream_commit_def upstream_target_def tracking_repo_def)
  from getCurrentAheadBehind_cases[of "Some unborn_repo"] a
  have 1: "getCurrentAheadBehind (Some unborn_repo) = Inl GitError" by blast
  from getCurrentAheadBehind_cases[of "Some tracking_repo"] h
  have "\<exists>repo. Some tracking_repo = Some repo \<and>
         getCurrentAheadBehind (Some tracking_repo) =
           (case graph_aheadBehind repo 2 1 of
              None \<Rightarrow> Inl GitError
            | Some (a, b) \<Rightarrow> Inr (AheadBehind a b))" by blast
  then have 2: "getCurrentAheadBehind (Some tracking_repo) = Inr (AheadBehind 1 0)"
    by (simp add: tracking_repo_def)
  from a h 1 2 show ?thesis by simp
qed

text \<open>In a repository whose head cannot be read, the commit of the head is not resolved, and
  yet the result is a rejection, not \<open>{}\<close>.\<close>

theorem getCurrentAheadBehind_unborn_counterexample:
  "head_commit (Some unborn_repo) = None \<and>
   getCurrentAheadBehind (Some unborn_repo) \<noteq> Inr EmptyObject \<and>
   getCurrentAheadBehind (Some unborn_repo) = Inl GitError"
  by (simp add: head_commit_def getCurrentAheadBehind_def unborn_repo_def)

subsection \<open>The tag conjunct of dist\<close>

lemma tracking_repo_reads:
  "getRemoteUrl ''origin'' (Some tracking_repo) = Inr (Some ''github.com:chimaera-node/cli.git'')"
  "getTags (Some tracking_repo) = Inr [''v0.9.0'']"
  "getCurrentBranchName (Some tracking_repo) = Inr ''master...origin/master''"
  "git_status (Some tracking_repo) = Inr []"
  "getCurrentAheadBehind (Some tracking_repo) = Inr (AheadBehind 1 0)"
  by (simp_all add: getRemoteUrl_def getTags_def getCurrentBranchName_def git_status_def
      getCurrentAheadBehind_def upstream_target_def tracking_repo_def split_def get_index_def)

lemma getInfo_example_a:
  "getInfo example_world [''ws'', ''a''] =
    \<lparr>path = [''ws'', ''a''], fmt_path = ''~/a'',
      origin_url = Some ''github.com:chimaera-node/cli.git'',
      tags = Some [''v0.9.0''], branch = Some ''master...origin/master'',
      status = Some [], ahead_behind = Some (AheadBehind 1 0),
      package =
        Some \<lparr>pkg_name = Some ''a'', pkg_version = Some ''1.0.0'', nopack = False,
          dependencies = Some [''b''], devDependencies = Some [''b'', ''mocha'']\<rparr>,
      package_lock = None, module = Some ''a'', version = Some ''1.0.0'',
      vmodule = ''a@1.0.0'', semver = ''v1.0.0''\<rparr>"
  by (simp add: getInfo_def example_world_def Let_def tracking_repo_reads join_option_def
      tryCatch_def get_name_def get_version_def join_text_def template_text_def path_text_def)

lemma getInfo_example_b:
  "getInfo example_world [''ws'', ''grp'', ''b''] =
    \<lparr>path = [''ws'', ''grp'', ''b''], fmt_path = ''~/grp/b'',
      origin_url = Some ''github.com:chimaera-node/cli.git'',
      tags = Some [''v0.9.0''], branch = Some ''master...origin/master'',
      status = Some [], ahead_behind = Some (AheadBehind 1 0),
      package =
        Some \<lparr>pkg_name = Some ''b'', pkg_version = Some ''0.9.0'', nopack = False,
          dependencies = None, devDependencies = None\<rparr>,
      package_lock = None, module = Some ''b'', version = Some ''0.9.0'',
      vmodule = ''b@0.9.0'', semver = ''v0.9.0''\<rparr>"
  by (simp add: getInfo_def example_world_def Let_def tracking_repo_reads join_option_def
      tryCatch_def get_name_def get_version_def join_text_def template_text_def path_text_def)

text \<open>
  C1, as the code has it.  For the snapshot of a module, the version tag is \<open>v\<close> followed
  by the version; \<open>descendantOfHead\<close> is called only with that tag and only when the tag
  set holds it; and when the tag set does not hold it, the tag conjunct is \<open>false\<close>
  without a call, so that \<open>dist\<close> does not select the module.
\<close>

theorem dist_tag_gate:
  assumes "x = getInfo w p"
  shows "semver x = ''v'' @ template_text (version x) \<and>
         (\<forall>s. s \<in> set (fst (dist_tag_conjunct w x)) \<longrightarrow>
              s = semver x \<and> semver x \<in> set (get_tags x)) \<and>
         (semver x \<notin> set (get_tags x) \<longrightarrow>
              dist_tag_conjunct w x = ([], Inr False) \<and> dist_pred w x \<noteq> Inr True)"
proof (intro conjI allI impI)
  show "semver x = ''v'' @ template_text (version x)"
    using assms by (simp add: getInfo_def Let_def)
next
  fix s assume "s \<in> set (fst (dist_tag_conjunct w x))"
  then show "s = semver x" and "semver x \<in> set (get_tags x)"
    by (auto simp: dist_tag_conjunct_def split: if_splits)
next
  assume n: "semver x \<notin> set (get_tags x)"
  then show "dist_tag_conjunct w x = ([], Inr False)"
    by (simp add: dist_tag_conjunct_def)
  then show "dist_pred w x \<noteq> Inr True"
    unfolding dist_pred_def and_all_True by simp
qed

theorem dist_tag_gate_witness:
  "semver (getInfo example_world [''ws'', ''a'']) \<notin>
     set (get_tags (getInfo example_world [''ws'', ''a''])) \<and>
   dist_tag_conjunct example_world (getInfo example_world [''ws'', ''a'']) = ([], Inr False) \<and>
   dist_pred example_world (getInfo example_world [''ws'', ''a'']) \<noteq> Inr True \<and>
   ''v0.9.0'' \<in> set (fst (dist_tag_conjunct example_world
                              (getInfo example_world [''ws'', ''grp'', ''b'']))) \<and>
   semver (getInfo example_world [''ws'', ''grp'', ''b'']) \<in>
     set (get_tags (getInfo example_world [''ws'', ''grp'', ''b'']))"
proof -
  have a: "semver (getInfo example_world [''ws'', ''a'']) \<notin>
     set (get_tags (getInfo example_world [''ws'', ''a'']))"
    by (simp add: getInfo_example_a get_tags_def)
  have b: "''v0.9.0'' \<in> set (fst (dist_tag_conjunct example_world
                              (getInfo example_world [''ws'', ''grp'', ''b''])))"
    by (simp add: getInfo_example_b get_tags_def dist_tag_conjunct_def)
  from dist_tag_gate[OF refl, of example_world "[''ws'', ''a'']"] a
  have 1: "dist_tag_conjunct example_world (getInfo example_world [''ws'', ''a'']) = ([], Inr False) \<and>
   dist_pred example_world (getInfo example_world [''ws'', ''a'']) \<noteq> Inr True" by blast
  from dist_tag_gate[OF refl, of example_world "[''ws'', ''grp'', ''b'']"] b
  have 2: "semver (getInfo example_world [''ws'', ''grp'', ''b'']) \<in>
     set (get_tags (getInfo example_world [''ws'', ''grp'', ''b'']))" by blast
  from a b 1 2 show ?thesis by simp
qed

text \<open>Module \<open>a\<close> of the example has no tag \<open>v1.0.0\<close>; every other conjunct of the
  predicate holds for it, the tag conjunct is \<open>false\<close>, and the module is not selected.\<close>

theorem dist_untagged_counterexample:
  "semver (getInfo example_world [''ws'', ''a'']) = ''v1.0.0'' \<and>
   ''v1.0.0'' \<notin> set (get_tags (getInfo example_world [''ws'', ''a''])) \<and>
   snd (dist_tag_conjunct example_world (getInfo example_world [''ws'', ''a''])) = Inr False \<and>
   branch (getInfo example_world [''ws'', ''a'']) = Some ''master...origin/master'' \<and>
   status_isEmpty (getInfo example_world [''ws'', ''a'']) = Inr True \<and>
   js_eq (get_behind (ahead_behind (getInfo example_world [''ws'', ''a'']))) 0 \<and>
   js_gte (get_ahead (ahead_behind (getInfo example_world [''ws'', ''a'']))) 0 \<and>
   \<not> get_nopack (package (getInfo example_world [''ws'', ''a''])) \<and>
   dist_pred example_world (getInfo example_world [''ws'', ''a'']) = Inr False"
  by (simp add: getInfo_example_a get_tags_def dist_tag_conjunct_def dist_pred_def
      status_isEmpty_def js_eq_def js_gte_def get_nopack_def)

subsection \<open>The Dependency Linker\<close>









text \<open>The two names the plain reading misses: a stored module whose name has a dot is not
  found under its name, and a name every object inherits is found without a module.\<close>

lemma lookup_dotted_name:
  "lookup wk (moduleStore [moduleX \<lparr> module := Some ''b.js'' \<rparr>]) ''b.js'' = None"
  by (simp add: lookup_def moduleStore_def store_put_def store_key_def template_text_def
      split_def object_prototype_members_def)

lemma lookup_inherited_name:
  "lookup wk (moduleStore []) ''constructor'' = Some (Foreign bare_foreign)"
  by (simp add: lookup_def read_store_def moduleStore_def split_def
      object_prototype_members_def)











subsection \<open>Dry-run\<close>









text \<open>A module directory without a repository: each of the six reads writes its line.\<close>

lemma getInfo_errors_no_repo:
  "repo_at w p = None \<Longrightarrow> getInfo_errors w p = replicate 6 (ConsoleError GitError)"
  by (simp add: getInfo_errors_def caught_def getRepo_def getRemoteUrl_def getTags_def
      getCurrentBranchName_def git_status_def getCurrentAheadBehind_def numeral_eq_Suc)






































end
